theory Spec2Isabelle
  imports Complex_Main "HOL-Library.Multiset" "HOL-Library.Char_ord" "HOL-Library.List_Lexorder"
    "HOL-Library.Product_Lexorder"
begin

section \<open>The worklog database\<close>

text \<open>
  The program keeps three SQLite tables (\<^verbatim>\<open>init_db\<close>): projects, entries and attachments.
  A table is the list of its rows in storage (rowid) order. TEXT columns are byte strings,
  compared bytewise (SQLite's BINARY collation, which is the lexicographic order on
  \<^typ>\<open>string\<close>); INTEGER columns are integers; a nullable column is an option.
  The columns that \<^verbatim>\<open>insert_entry\<close> always binds to a Python \<^verbatim>\<open>str\<close>
  (work type, tags, path, notes) are plain strings. The REAL column \<^verbatim>\<open>duration_hours\<close>
  holds a real number: the program only stores it, returns it and tests it against zero.
  Each AUTOINCREMENT table has its counter of \<^verbatim>\<open>sqlite_sequence\<close>.
\<close>

record project =
  p_id :: int
  p_name :: string
  p_base_path :: "string option"
  p_created_at :: string

record entry =
  e_id :: int
  e_ts :: string
  e_title :: string
  e_project_id :: "int option"
  e_work_type :: string
  e_tags :: string
  e_path :: string
  e_duration_hours :: "real option"
  e_notes_md :: string
  e_created_at :: string

record attachment =
  a_id :: int
  a_entry_id :: int
  a_filename :: string
  a_rel_path :: string
  a_created_at :: string

record database =
  projects :: "project list"
  entries :: "entry list"
  attachments :: "attachment list"
  seq_projects :: int
  seq_entries :: int
  seq_attachments :: int

text \<open>The database right after \<^verbatim>\<open>init_db\<close> on a fresh file: three empty tables.\<close>

definition init_db :: database where
  "init_db = \<lparr>projects = [], entries = [], attachments = [],
              seq_projects = 0, seq_entries = 0, seq_attachments = 0\<rparr>"

text \<open>
  The constraints the schema declares: primary keys and the UNIQUE project name are
  distinct, and both foreign keys point at existing rows.
\<close>

definition schema_ok :: "database \<Rightarrow> bool" where
  "schema_ok db =
     (distinct (map p_id (projects db)) \<and>
      distinct (map p_name (projects db)) \<and>
      distinct (map e_id (entries db)) \<and>
      distinct (map a_id (attachments db)) \<and>
      list_all (\<lambda>e. case e_project_id e of None \<Rightarrow> True
                     | Some pid \<Rightarrow> pid \<in> set (map p_id (projects db))) (entries db) \<and>
      list_all (\<lambda>a. a_entry_id a \<in> set (map e_id (entries db))) (attachments db))"

text \<open>
  The rowid an AUTOINCREMENT table gives a new row: one more than the largest rowid the
  table has ever held (its \<^verbatim>\<open>sqlite_sequence\<close> counter) and than every rowid present.
\<close>

definition next_rowid :: "int \<Rightarrow> int list \<Rightarrow> int" where
  "next_rowid seq ids = fold max ids seq + 1"

text \<open>
  What the program can raise: \<^verbatim>\<open>sqlite3.IntegrityError\<close> when a constraint fails, and
  \<^verbatim>\<open>ValueError\<close> when pandas cannot read a column of timestamps. An operation on the
  database returns the database it leaves behind together with its result; after an
  exception nothing was committed, so the database is the one it started from.
\<close>

datatype error = IntegrityError | ValueError

text \<open>
  \<^verbatim>\<open>get_conn\<close> opens a connection and switches foreign-key enforcement on. A connection is
  the database it works on, with that switch.
\<close>

record connection =
  conn_db :: database
  foreign_keys :: bool

definition get_conn :: "database \<Rightarrow> connection" where
  "get_conn db = \<lparr>conn_db = db, foreign_keys = True\<rparr>"

subsection \<open>Projects\<close>

text \<open>
  \<^verbatim>\<open>upsert_project\<close>: a SELECT on the name decides between an UPDATE of every row of that
  name and an INSERT. The clock reading \<^verbatim>\<open>datetime.utcnow().isoformat()\<close> is the argument
  \<open>now\<close>. The INSERT cannot violate UNIQUE(name), since the SELECT found no row.
\<close>

definition get_project_id_by_name :: "database \<Rightarrow> string \<Rightarrow> int option" where
  "get_project_id_by_name db name =
     (case filter (\<lambda>p. p_name p = name) (projects db) of
        [] \<Rightarrow> None
      | p # _ \<Rightarrow> Some (p_id p))"

definition upsert_project :: "database \<Rightarrow> string \<Rightarrow> string option \<Rightarrow> string \<Rightarrow> database" where
  "upsert_project db name base_path now =
     (if filter (\<lambda>p. p_name p = name) (projects (conn_db (get_conn db))) \<noteq> []
      then db\<lparr>projects :=
                map (\<lambda>p. if p_name p = name then p\<lparr>p_base_path := base_path\<rparr> else p)
                    (projects db)\<rparr>
      else (let rid = next_rowid (seq_projects db) (map p_id (projects db))
            in db\<lparr>projects := projects db @
                       [\<lparr>p_id = rid, p_name = name, p_base_path = base_path,
                         p_created_at = now\<rparr>],
                    seq_projects := rid\<rparr>))"

subsection \<open>Dates and their ISO texts\<close>

text \<open>
  Python's \<^verbatim>\<open>date\<close> and naive \<^verbatim>\<open>datetime\<close> values, with the ranges their classes
  enforce, and \<^verbatim>\<open>isoformat\<close>: zero-padded decimal fields, the fraction of a second
  only when the microsecond is not zero. (Within the ranges of \<open>valid_date\<close> and
  \<open>valid_datetime\<close> no field is wider than its padding.)
\<close>

record date =
  d_year :: nat
  d_month :: nat
  d_day :: nat

record datetime =
  dt_year :: nat
  dt_month :: nat
  dt_day :: nat
  dt_hour :: nat
  dt_minute :: nat
  dt_second :: nat
  dt_microsecond :: nat

definition is_leap :: "nat \<Rightarrow> bool" where
  "is_leap y = (y mod 4 = 0 \<and> (y mod 100 \<noteq> 0 \<or> y mod 400 = 0))"

definition days_in_month :: "nat \<Rightarrow> nat \<Rightarrow> nat" where
  "days_in_month y m =
     (if m = 2 then (if is_leap y then 29 else 28)
      else if m = 4 \<or> m = 6 \<or> m = 9 \<or> m = 11 then 30 else 31)"


definition datetime_date :: "datetime \<Rightarrow> date" where
  "datetime_date t = \<lparr>d_year = dt_year t, d_month = dt_month t, d_day = dt_day t\<rparr>"



definition digit_char :: "nat \<Rightarrow> char" where
  "digit_char n = char_of (48 + n)"

fun zero_pad :: "nat \<Rightarrow> nat \<Rightarrow> string" where
  "zero_pad 0 n = []"
| "zero_pad (Suc k) n = zero_pad k (n div 10) @ [digit_char (n mod 10)]"

definition date_isoformat :: "date \<Rightarrow> string" where
  "date_isoformat d =
     zero_pad 4 (d_year d) @ ''-'' @ zero_pad 2 (d_month d) @ ''-'' @ zero_pad 2 (d_day d)"

definition datetime_isoformat :: "datetime \<Rightarrow> string" where
  "datetime_isoformat t =
     date_isoformat (datetime_date t) @ ''T'' @
     zero_pad 2 (dt_hour t) @ '':'' @ zero_pad 2 (dt_minute t) @ '':'' @
     zero_pad 2 (dt_second t) @
     (if dt_microsecond t = 0 then [] else ''.'' @ zero_pad 6 (dt_microsecond t))"

subsection \<open>The SQL functions the queries use\<close>

text \<open>
  SQLite's \<^verbatim>\<open>DATE(x)\<close> on a text (as SQLite 3.46 computes it), for the texts this
  program hands it: a date \<^verbatim>\<open>YYYY-MM-DD\<close> alone or followed by \<^verbatim>\<open>T\<close> (or a
  blank) and a time \<^verbatim>\<open>HH:MM:SS\<close>, with an optional fraction of six digits. The month
  is 1 to 12 and the day 1 to 31. The result is a date as text, or NULL (None):
  \<^item> a day of 28 or less is returned as it is written;
  \<^item> a later day is recomputed from the Julian day number in milliseconds, to which the
    time is rounded: the last half millisecond of the day (\<^verbatim>\<open>23:59:59.999500\<close> and
    later) belongs to the next day, a day past the end of its month runs on into the
    next month, and a date after 9999-12-31 is NULL.
  SQLite accepts further spellings (time zones, a missing seconds field, hour 24, other
  fractions); \<^verbatim>\<open>isoformat\<close> of a date or a naive datetime writes none of them, and
  they are outside this model, which gives NULL for them.
\<close>

definition is_digit :: "char \<Rightarrow> bool" where
  "is_digit c = (48 \<le> (of_char c :: nat) \<and> (of_char c :: nat) \<le> 57)"

definition digits_value :: "string \<Rightarrow> nat" where
  "digits_value s = foldl (\<lambda>n c. 10 * n + (of_char c - 48)) 0 s"

definition sql_time_ok :: "string \<Rightarrow> bool" where
  "sql_time_ok s =
     (8 \<le> length s \<and>
      list_all is_digit (take 2 s) \<and> s ! 2 = CHR '':'' \<and>
      list_all is_digit (take 2 (drop 3 s)) \<and> s ! 5 = CHR '':'' \<and>
      list_all is_digit (take 2 (drop 6 s)) \<and>
      digits_value (take 2 s) < 24 \<and>
      digits_value (take 2 (drop 3 s)) < 60 \<and>
      digits_value (take 2 (drop 6 s)) < 60 \<and>
      (drop 8 s = [] \<or>
       (s ! 8 = CHR ''.'' \<and> length (drop 9 s) = 6 \<and> list_all is_digit (drop 9 s))))"

text \<open>The time texts that round up to midnight: \<^verbatim>\<open>23:59:59.999500\<close> and later.\<close>

definition sql_time_rounds_up :: "string \<Rightarrow> bool" where
  "sql_time_rounds_up s =
     (digits_value (take 2 s) = 23 \<and> digits_value (take 2 (drop 3 s)) = 59 \<and>
      digits_value (take 2 (drop 6 s)) = 59 \<and> 999500 \<le> digits_value (drop 9 s))"

text \<open>
  The date text of year \<open>y\<close>, month \<open>m\<close> and a day number \<open>d\<close> that may lie past the end
  of the month (by less than a month).
\<close>

definition sql_normal_date :: "nat \<Rightarrow> nat \<Rightarrow> nat \<Rightarrow> string option" where
  "sql_normal_date y m d =
     (if d \<le> days_in_month y m
      then Some (date_isoformat \<lparr>d_year = y, d_month = m, d_day = d\<rparr>)
      else if m < 12
      then Some (date_isoformat
                   \<lparr>d_year = y, d_month = m + 1, d_day = d - days_in_month y m\<rparr>)
      else if y < 9999
      then Some (date_isoformat \<lparr>d_year = y + 1, d_month = 1, d_day = d - 31\<rparr>)
      else None)"

definition sql_date :: "string \<Rightarrow> string option" where
  "sql_date s =
     (if 10 \<le> length s \<and>
         list_all is_digit (take 4 s) \<and> s ! 4 = CHR ''-'' \<and>
         list_all is_digit (take 2 (drop 5 s)) \<and> s ! 7 = CHR ''-'' \<and>
         list_all is_digit (take 2 (drop 8 s)) \<and>
         1 \<le> digits_value (take 2 (drop 5 s)) \<and> digits_value (take 2 (drop 5 s)) \<le> 12 \<and>
         1 \<le> digits_value (take 2 (drop 8 s)) \<and> digits_value (take 2 (drop 8 s)) \<le> 31 \<and>
         (drop 10 s = [] \<or>
          ((s ! 10 = CHR ''T'' \<or> s ! 10 = CHR '' '') \<and> sql_time_ok (drop 11 s)))
      then sql_normal_date (digits_value (take 4 s)) (digits_value (take 2 (drop 5 s)))
             (digits_value (take 2 (drop 8 s)) +
              (if 28 < digits_value (take 2 (drop 8 s)) \<and> drop 10 s \<noteq> [] \<and>
                  sql_time_rounds_up (drop 11 s)
               then 1 else 0))
      else None)"


text \<open>
  A comparison with a NULL operand is NULL, and WHERE keeps a row only when its
  condition is true: the conditions below say when a comparison is true.
\<close>

definition sql_ge :: "string option \<Rightarrow> string option \<Rightarrow> bool" where
  "sql_ge a b = (case a of None \<Rightarrow> False
                 | Some x \<Rightarrow> (case b of None \<Rightarrow> False | Some y \<Rightarrow> y \<le> x))"

definition sql_le :: "string option \<Rightarrow> string option \<Rightarrow> bool" where
  "sql_le a b = (case a of None \<Rightarrow> False
                 | Some x \<Rightarrow> (case b of None \<Rightarrow> False | Some y \<Rightarrow> x \<le> y))"

definition sql_in :: "int option \<Rightarrow> int list \<Rightarrow> bool" where
  "sql_in x vs = (case x of None \<Rightarrow> False | Some v \<Rightarrow> v \<in> set vs)"

text \<open>
  SQLite's \<^verbatim>\<open>LIKE\<close> with its defaults: \<^verbatim>\<open>%\<close> in the pattern stands for any run of
  characters, \<^verbatim>\<open>_\<close> for one character (one UTF-8 sequence: a lead byte and its
  continuation bytes), no escape character, and any other character matches itself,
  the ASCII letters without regard to case.
\<close>

definition to_lower :: "char \<Rightarrow> char" where
  "to_lower c = (if 65 \<le> (of_char c :: nat) \<and> (of_char c :: nat) \<le> 90
                 then char_of ((of_char c :: nat) + 32) else c)"

definition is_continuation :: "char \<Rightarrow> bool" where
  "is_continuation c = (128 \<le> (of_char c :: nat) \<and> (of_char c :: nat) < 192)"

definition skip_utf8 :: "string \<Rightarrow> string" where
  "skip_utf8 s = (case s of [] \<Rightarrow> []
                  | c # cs \<Rightarrow> if 192 \<le> (of_char c :: nat) then dropWhile is_continuation cs else cs)"

fun like :: "string \<Rightarrow> string \<Rightarrow> bool" where
  "like [] t = (t = [])"
| "like (p # ps) t =
     (if p = CHR ''%'' then
        (like ps t \<or> (case t of [] \<Rightarrow> False | c # cs \<Rightarrow> like (p # ps) cs))
      else if p = CHR ''_'' then
        (case t of [] \<Rightarrow> False | c # cs \<Rightarrow> like ps (skip_utf8 (c # cs)))
      else
        (case t of [] \<Rightarrow> False | c # cs \<Rightarrow> to_lower p = to_lower c \<and> like ps cs))"

subsection \<open>Entries\<close>

text \<open>
  \<^verbatim>\<open>insert_entry\<close> stores the ISO text of the timestamp and every other argument as it
  is given, and returns the new rowid. The connection enforces the foreign key: a
  \<open>project_id\<close> that names no project raises \<^verbatim>\<open>IntegrityError\<close>.
\<close>

definition insert_entry ::
  "database \<Rightarrow> datetime \<Rightarrow> string \<Rightarrow> int option \<Rightarrow> string \<Rightarrow> string \<Rightarrow> string \<Rightarrow>
   real option \<Rightarrow> string \<Rightarrow> string \<Rightarrow> database \<times> (error + int)" where
  "insert_entry db ts title project_id work_type tags path duration_hours notes_md now =
     (let conn = get_conn db;
          entry_id = next_rowid (seq_entries db) (map e_id (entries db))
      in if foreign_keys conn \<and>
            (case project_id of None \<Rightarrow> False
             | Some pid \<Rightarrow> pid \<notin> set (map p_id (projects (conn_db conn))))
         then (db, Inl IntegrityError)
         else (db\<lparr>entries := entries db @
                     [\<lparr>e_id = entry_id, e_ts = datetime_isoformat ts, e_title = title,
                       e_project_id = project_id, e_work_type = work_type, e_tags = tags,
                       e_path = path, e_duration_hours = duration_hours,
                       e_notes_md = notes_md, e_created_at = now\<rparr>],
                  seq_entries := entry_id\<rparr>,
               Inr entry_id))"

text \<open>
  \<^verbatim>\<open>insert_attachment\<close>: one INSERT on a connection of \<^verbatim>\<open>get_conn\<close>; the foreign key
  of \<^verbatim>\<open>entry_id\<close> is checked when the connection enforces foreign keys.
\<close>

definition insert_attachment ::
  "database \<Rightarrow> int \<Rightarrow> string \<Rightarrow> string \<Rightarrow> string \<Rightarrow> database \<times> (error + unit)" where
  "insert_attachment db entry_id filename rel_path now =
     (let conn = get_conn db
      in if foreign_keys conn \<and> entry_id \<notin> set (map e_id (entries (conn_db conn)))
         then (db, Inl IntegrityError)
         else (let rid = next_rowid (seq_attachments db) (map a_id (attachments db))
               in (db\<lparr>attachments := attachments db @
                          [\<lparr>a_id = rid, a_entry_id = entry_id, a_filename = filename,
                            a_rel_path = rel_path, a_created_at = now\<rparr>],
                       seq_attachments := rid\<rparr>,
                   Inr ())))"

text \<open>A row of the result of \<^verbatim>\<open>query_entries\<close>: the nine columns of its SELECT.\<close>

record row =
  r_id :: int
  r_ts :: string
  r_title :: string
  r_project :: string
  r_work_type :: string
  r_tags :: string
  r_path :: string
  r_duration_hours :: "real option"
  r_notes_md :: string

text \<open>
  \<^verbatim>\<open>FROM entries e LEFT JOIN projects p ON e.project_id = p.id\<close>: each entry with every
  project of that id, or once with NULLs when there is none.
\<close>

definition left_join :: "project list \<Rightarrow> entry \<Rightarrow> (entry \<times> project option) list" where
  "left_join ps e =
     (case filter (\<lambda>p. e_project_id e = Some (p_id p)) ps of
        [] \<Rightarrow> [(e, None)]
      | m # ms \<Rightarrow> map (\<lambda>p. (e, Some p)) (m # ms))"

definition select_row :: "entry \<times> project option \<Rightarrow> row" where
  "select_row ep =
     (case ep of (e, p) \<Rightarrow>
        \<lparr>r_id = e_id e, r_ts = e_ts e, r_title = e_title e,
         r_project = (case p of None \<Rightarrow> [] | Some q \<Rightarrow> p_name q),
         r_work_type = e_work_type e, r_tags = e_tags e, r_path = e_path e,
         r_duration_hours = e_duration_hours e, r_notes_md = e_notes_md e\<rparr>)"

text \<open>
  \<^verbatim>\<open>ORDER BY e.ts DESC\<close>: the rows sorted on the timestamp text, largest first. SQLite
  promises no order among equal timestamps; here they keep their storage order.
\<close>

fun insort_desc :: "row \<Rightarrow> row list \<Rightarrow> row list" where
  "insort_desc x [] = [x]"
| "insort_desc x (y # ys) = (if r_ts y \<le> r_ts x then x # y # ys else y # insort_desc x ys)"

definition order_by_ts_desc :: "row list \<Rightarrow> row list" where
  "order_by_ts_desc rs = foldr insort_desc rs []"

text \<open>
  The conditions \<^verbatim>\<open>query_entries\<close> collects, in its order. Each \<^verbatim>\<open>if\<close> tests the
  truth value of its argument: \<^verbatim>\<open>None\<close>, the empty list and the empty string add no
  condition (a \<^verbatim>\<open>date\<close> is always true). All the columns they name are columns of
  \<open>entries\<close>.
\<close>

definition like_pattern :: "string \<Rightarrow> string" where
  "like_pattern t = ''%'' @ t @ ''%''"

definition query_conditions ::
  "date option \<Rightarrow> date option \<Rightarrow> int list option \<Rightarrow> string option \<Rightarrow> string option \<Rightarrow>
   (entry \<Rightarrow> bool) list" where
  "query_conditions start end' project_ids text tags_like =
     (case start of None \<Rightarrow> []
      | Some s \<Rightarrow> [\<lambda>e. sql_ge (sql_date (e_ts e)) (sql_date (date_isoformat s))]) @
     (case end' of None \<Rightarrow> []
      | Some s \<Rightarrow> [\<lambda>e. sql_le (sql_date (e_ts e)) (sql_date (date_isoformat s))]) @
     (case project_ids of None \<Rightarrow> []
      | Some ids \<Rightarrow> if ids = [] then [] else [\<lambda>e. sql_in (e_project_id e) ids]) @
     (case text of None \<Rightarrow> []
      | Some t \<Rightarrow> if t = [] then []
                  else [\<lambda>e. like (like_pattern t) (e_title e) \<or>
                             like (like_pattern t) (e_notes_md e) \<or>
                             like (like_pattern t) (e_path e)]) @
     (case tags_like of None \<Rightarrow> []
      | Some t \<Rightarrow> if t = [] then [] else [\<lambda>e. like (like_pattern t) (e_tags e)])"

definition query_entries ::
  "database \<Rightarrow> date option \<Rightarrow> date option \<Rightarrow> int list option \<Rightarrow> string option \<Rightarrow>
   string option \<Rightarrow> row list" where
  "query_entries db start end' project_ids text tags_like =
     (let conditions = query_conditions start end' project_ids text tags_like
      in order_by_ts_desc
           (map select_row
              (filter (\<lambda>ep. list_all (\<lambda>c. c (fst ep)) conditions)
                 (concat (map (left_join (projects db)) (entries db))))))"

subsection \<open>Quick capture\<close>

text \<open>
  A text is the UTF-8 bytes of a Python string. Python's \<^verbatim>\<open>str.strip()\<close> removes
  the white space characters (those of \<^verbatim>\<open>str.isspace\<close>) at both ends; they are
  listed here in their UTF-8 encodings: U+0009 to U+000D, U+001C to U+0020, U+0085,
  U+00A0, U+1680, U+2000 to U+200A, U+2028, U+2029, U+202F, U+205F and U+3000.
\<close>

definition whitespace :: "string list" where
  "whitespace =
     [[CHR 0x09], [CHR 0x0A], [CHR 0x0B], [CHR 0x0C], [CHR 0x0D],
      [CHR 0x1C], [CHR 0x1D], [CHR 0x1E], [CHR 0x1F], [CHR 0x20],
      [CHR 0xC2, CHR 0x85], [CHR 0xC2, CHR 0xA0], [CHR 0xE1, CHR 0x9A, CHR 0x80],
      [CHR 0xE2, CHR 0x80, CHR 0x80], [CHR 0xE2, CHR 0x80, CHR 0x81],
      [CHR 0xE2, CHR 0x80, CHR 0x82], [CHR 0xE2, CHR 0x80, CHR 0x83],
      [CHR 0xE2, CHR 0x80, CHR 0x84], [CHR 0xE2, CHR 0x80, CHR 0x85],
      [CHR 0xE2, CHR 0x80, CHR 0x86], [CHR 0xE2, CHR 0x80, CHR 0x87],
      [CHR 0xE2, CHR 0x80, CHR 0x88], [CHR 0xE2, CHR 0x80, CHR 0x89],
      [CHR 0xE2, CHR 0x80, CHR 0x8A], [CHR 0xE2, CHR 0x80, CHR 0xA8],
      [CHR 0xE2, CHR 0x80, CHR 0xA9], [CHR 0xE2, CHR 0x80, CHR 0xAF],
      [CHR 0xE2, CHR 0x81, CHR 0x9F], [CHR 0xE3, CHR 0x80, CHR 0x80]]"

text \<open>Removing, again and again, whichever of the byte sequences \<open>ws\<close> a text starts with.\<close>

function drop_leading :: "string list \<Rightarrow> string \<Rightarrow> string" where
  "drop_leading ws s =
     (case filter (\<lambda>w. w \<noteq> [] \<and> take (length w) s = w) ws of
        [] \<Rightarrow> s
      | w # _ \<Rightarrow> drop_leading ws (drop (length w) s))"
  by pat_completeness auto
termination
proof (relation "measure (\<lambda>(ws, s). length s)")
  show "wf (measure (\<lambda>(ws, s). length s))" by simp
next
  fix ws :: "string list" and s :: string and w rest
  assume "filter (\<lambda>w. w \<noteq> [] \<and> take (length w) s = w) ws = w # rest"
  then have "w \<noteq> [] \<and> take (length w) s = w" by (metis (mono_tags, lifting) Cons_eq_filterD)
  then have "w \<noteq> []" "length w \<le> length s"
    by (auto, metis length_take min.cobounded1)
  then show "((ws, drop (length w) s), (ws, s)) \<in> measure (\<lambda>(ws, s). length s)"
    by (cases w) auto
qed

definition strip :: "string \<Rightarrow> string" where
  "strip s = rev (drop_leading (map rev whitespace) (rev (drop_leading whitespace s)))"

text \<open>
  The part of \<^verbatim>\<open>quick_capture\<close> that runs when the form is submitted, up to its call
  of \<^verbatim>\<open>insert_entry\<close>: a title that is blank stops it (the result is None and nothing
  is stored); the duration of the number field becomes \<^verbatim>\<open>None\<close> when it is zero. What
  follows the call (saving uploads, opening the path) does not touch the table of
  entries.
\<close>

definition quick_capture ::
  "database \<Rightarrow> int option \<Rightarrow> string \<Rightarrow> datetime \<Rightarrow> string \<Rightarrow> string \<Rightarrow> string \<Rightarrow> real \<Rightarrow>
   string \<Rightarrow> string \<Rightarrow> database \<times> (error + int) option" where
  "quick_capture db active_project_id title ts path work_type tags duration notes now =
     (if strip title = [] then (db, None)
      else (case insert_entry db ts (strip title) active_project_id work_type (strip tags)
                   (strip path) (if duration \<noteq> 0 then Some duration else None) notes now of
              (db', res) \<Rightarrow> (db', Some res)))"

subsection \<open>Exports\<close>

text \<open>
  The CSV download of \<^verbatim>\<open>entries_view\<close>: the empty byte string for an empty result, and
  otherwise what pandas' \<^verbatim>\<open>to_csv\<close> writes for the rows without their notes, which is
  the argument \<open>to_csv\<close>.
\<close>

definition export_csv :: "(row list \<Rightarrow> string) \<Rightarrow> row list \<Rightarrow> string" where
  "export_csv to_csv df = (if df \<noteq> [] then to_csv df else [])"

text \<open>
  \<^verbatim>\<open>export_markdown\<close>. What pandas reads from the column of timestamps,
  \<^verbatim>\<open>pd.to_datetime(df2["ts"]).dt.date\<close>, is the argument \<open>to_datetime_date\<close>: the
  dates of the column, one for each row, or None when pandas raises \<^verbatim>\<open>ValueError\<close>.
  \<^verbatim>\<open>groupby("date", sort=True)\<close> visits the distinct dates in ascending order
  (Python compares dates as the triples of year, month and day), each with its rows,
  and \<^verbatim>\<open>sort_values("ts")\<close> sorts a group on the timestamp text. A date prints as its
  ISO text. Two more things depend on the world outside: \<^verbatim>\<open>human_path_link\<close>, which
  looks at the file system, and the printing of a float; they are the arguments
  \<open>human_path_link\<close> and \<open>show_float\<close>.
\<close>

definition date_key :: "date \<Rightarrow> nat \<times> nat \<times> nat" where
  "date_key d = (d_year d, d_month d, d_day d)"

definition journal_groups :: "date list \<Rightarrow> row list \<Rightarrow> (date \<times> row list) list" where
  "journal_groups ds df =
     map (\<lambda>d. (d, sort_key r_ts (map snd (filter (\<lambda>p. fst p = d) (zip ds df)))))
         (sort_key date_key (remdups ds))"

definition join_lines :: "string list \<Rightarrow> string" where
  "join_lines ls = (case ls of [] \<Rightarrow> [] | l # rest \<Rightarrow> l @ concat (map (\<lambda>x. CHR 0x0A # x) rest))"

definition entry_lines :: "(string \<Rightarrow> string) \<Rightarrow> (real \<Rightarrow> string) \<Rightarrow> row \<Rightarrow> string list" where
  "entry_lines human_path_link show_float r =
     (let path_str = (if r_path r \<noteq> [] then human_path_link (r_path r) else [])
      in [''### '' @ r_title r @ [CHR 0x0A]] @
         [''- **Time:** '' @ r_ts r @ [CHR 0x0A]] @
         (if r_project r \<noteq> [] then [''- **Project:** '' @ r_project r @ [CHR 0x0A]] else []) @
         (if r_work_type r \<noteq> [] then [''- **Type:** '' @ r_work_type r @ [CHR 0x0A]] else []) @
         (if r_tags r \<noteq> [] then [''- **Tags:** '' @ r_tags r @ [CHR 0x0A]] else []) @
         (if path_str \<noteq> [] then [''- **Path:** '' @ path_str @ [CHR 0x0A]] else []) @
         (case r_duration_hours r of None \<Rightarrow> []
          | Some dur \<Rightarrow> [''- **Duration:** '' @ show_float dur @ '' h'' @ [CHR 0x0A]]) @
         (if r_notes_md r \<noteq> [] then [[CHR 0x0A] @ r_notes_md r @ [CHR 0x0A]] else []))"

definition section_lines ::
  "(string \<Rightarrow> string) \<Rightarrow> (real \<Rightarrow> string) \<Rightarrow> date \<times> row list \<Rightarrow> string list" where
  "section_lines human_path_link show_float dg =
     ([CHR 0x0A] @ ''## '' @ date_isoformat (fst dg) @ [CHR 0x0A]) #
     concat (map (entry_lines human_path_link show_float) (snd dg))"

definition export_markdown ::
  "(string list \<Rightarrow> date list option) \<Rightarrow> (string \<Rightarrow> string) \<Rightarrow> (real \<Rightarrow> string) \<Rightarrow>
   row list \<Rightarrow> error + string" where
  "export_markdown to_datetime_date human_path_link show_float df =
     (if df = [] then Inr (''# Worklog'' @ [CHR 0x0A, CHR 0x0A] @
                           ''_No entries in the selected range._'' @ [CHR 0x0A])
      else (case to_datetime_date (map r_ts df) of
              None \<Rightarrow> Inl ValueError
            | Some ds \<Rightarrow>
                Inr (join_lines
                       ((''# Worklog Export'' @ [CHR 0x0A]) #
                        concat (map (section_lines human_path_link show_float)
                                  (journal_groups ds df))))))"

subsection \<open>The specification's notion of a text match\<close>

text \<open>
  The specification describes the text filter as a case-insensitive substring match.
  Read on the bytes of a text, with the case of the ASCII letters ignored: \<open>s\<close> occurs
  in \<open>t\<close> when some position of \<open>t\<close> starts with \<open>s\<close> up to case.
\<close>

fun ci_prefix :: "string \<Rightarrow> string \<Rightarrow> bool" where
  "ci_prefix [] t = True"
| "ci_prefix (c # cs) [] = False"
| "ci_prefix (c # cs) (d # ds) = (to_lower c = to_lower d \<and> ci_prefix cs ds)"

fun ci_substring :: "string \<Rightarrow> string \<Rightarrow> bool" where
  "ci_substring s [] = ci_prefix s []"
| "ci_substring s (d # ds) = (ci_prefix s (d # ds) \<or> ci_substring s ds)"

subsection \<open>Example databases\<close>

text \<open>A database with one entry that has no project, and one with two projects.\<close>

definition db_one_entry :: database where
  "db_one_entry = init_db\<lparr>entries :=
     [\<lparr>e_id = 1, e_ts = ''2024-01-05T10:30:00'', e_title = ''abc'', e_project_id = None,
       e_work_type = ''Coding'', e_tags = ''x'', e_path = '''', e_duration_hours = None,
       e_notes_md = '''', e_created_at = ''2024-01-05T10:31:00''\<rparr>], seq_entries := 1\<rparr>"

definition project_x :: project where
  "project_x = \<lparr>p_id = 1, p_name = ''X'', p_base_path = Some ''/a'', p_created_at = ''t0''\<rparr>"

definition project_y :: project where
  "project_y = \<lparr>p_id = 2, p_name = ''Y'', p_base_path = None, p_created_at = ''t1''\<rparr>"

definition db_two_projects :: database where
  "db_two_projects = init_db\<lparr>projects := [project_x, project_y], seq_projects := 2\<rparr>"


text \<open>A timestamp, and the example scenario of the specification with a second entry.\<close>

definition ts_example :: datetime where
  "ts_example = \<lparr>dt_year = 2024, dt_month = 1, dt_day = 5, dt_hour = 10, dt_minute = 30,
                 dt_second = 0, dt_microsecond = 0\<rparr>"

definition db_atlas :: database where
  "db_atlas = init_db\<lparr>
     projects := [\<lparr>p_id = 1, p_name = ''Atlas'', p_base_path = Some ''/home/u/atlas'',
                   p_created_at = ''2024-01-01T09:00:00''\<rparr>],
     entries :=
       [\<lparr>e_id = 1, e_ts = ''2024-01-05T10:30:00'', e_title = ''Ran calibration'',
         e_project_id = Some 1, e_work_type = ''Experiment'', e_tags = ''calib,v2'',
         e_path = ''/home/u/atlas/run1'', e_duration_hours = Some (3/2),
         e_notes_md = ''Passed'', e_created_at = ''2024-01-05T10:31:00''\<rparr>,
        \<lparr>e_id = 2, e_ts = ''2024-01-07T08:15:00'', e_title = ''Weekly plan'',
         e_project_id = None, e_work_type = ''Planning'', e_tags = '''',
         e_path = '''', e_duration_hours = None,
         e_notes_md = '''', e_created_at = ''2024-01-07T08:16:00''\<rparr>],
     seq_projects := 1, seq_entries := 2\<rparr>"


text \<open>Three rows of a query result, on two days.\<close>

definition row_day5 :: row where
  "row_day5 = \<lparr>r_id = 1, r_ts = ''2024-01-05T10:30:00'', r_title = ''Ran calibration'',
                r_project = ''Atlas'', r_work_type = ''Experiment'', r_tags = ''calib,v2'',
                r_path = '''', r_duration_hours = None, r_notes_md = ''Passed''\<rparr>"

definition row_day7 :: row where
  "row_day7 = \<lparr>r_id = 2, r_ts = ''2024-01-07T08:15:00'', r_title = ''Weekly plan'',
                r_project = '''', r_work_type = ''Planning'', r_tags = '''',
                r_path = '''', r_duration_hours = None, r_notes_md = ''''\<rparr>"

definition row_day7_late :: row where
  "row_day7_late = \<lparr>r_id = 3, r_ts = ''2024-01-07T17:45:00'', r_title = ''Review'',
                r_project = '''', r_work_type = ''Review'', r_tags = '''',
                r_path = '''', r_duration_hours = None, r_notes_md = ''''\<rparr>"








section \<open>Properties\<close>

subsection \<open>Row identifiers\<close>

lemma fold_max_ge_init: "(s::int) \<le> fold max ids s"
proof (induction ids arbitrary: s)
  case Nil
  then show ?case by simp
next
  case (Cons a ids)
  have "s \<le> max a s" by simp
  also have "max a s \<le> fold max ids (max a s)" by (rule Cons.IH)
  finally show ?case by simp
qed

lemma fold_max_ge_elem: "(x::int) \<in> set ids \<Longrightarrow> x \<le> fold max ids s"
proof (induction ids arbitrary: s)
  case Nil
  then show ?case by simp
next
  case (Cons y ys)
  show ?case
  proof (cases "x = y")
    case True
    have "max y s \<le> fold max ys (max y s)" by (rule fold_max_ge_init)
    then show ?thesis using True by simp
  next
    case False
    then show ?thesis using Cons by simp
  qed
qed

lemma next_rowid_fresh: "next_rowid s ids \<notin> set ids"
  using fold_max_ge_elem[of "next_rowid s ids" ids s] by (auto simp: next_rowid_def)

subsection \<open>Upserting a project\<close>

lemma filter_upd_same:
  "filter (\<lambda>p. p_name p = X) (map (\<lambda>p. if p_name p = X then p\<lparr>p_base_path := b\<rparr> else p) ps)
   = map (\<lambda>p. p\<lparr>p_base_path := b\<rparr>) (filter (\<lambda>p. p_name p = X) ps)"
  by (induction ps) auto

lemma distinct_name_filter:
  "distinct (map p_name ps) \<Longrightarrow> length (filter (\<lambda>p. p_name p = X) ps) \<le> 1"
  by (induction ps) (auto simp: filter_empty_conv image_iff)

lemma upsert_present:
  "filter (\<lambda>p. p_name p = X) (projects (upsert_project db X a now)) \<noteq> []"
  by (auto simp: upsert_project_def get_conn_def Let_def filter_upd_same)

lemma map_name_upd:
  "map p_name (map (\<lambda>p. if p_name p = X then p\<lparr>p_base_path := b\<rparr> else p) ps) = map p_name ps"
  by (induction ps) auto

lemma upsert_distinct_names:
  "distinct (map p_name (projects db)) \<Longrightarrow>
   distinct (map p_name (projects (upsert_project db X a now)))"
  by (auto simp: upsert_project_def get_conn_def Let_def filter_empty_conv map_name_upd
      simp del: map_map)

text \<open>
  C3. In a database whose project names are distinct (the UNIQUE constraint of the
  schema), \<open>upsert_project X a\<close> followed by \<open>upsert_project X b\<close> leaves exactly one
  project row named \<open>X\<close>, and its base path is \<open>b\<close>.
\<close>

theorem upsert_project_twice:
  assumes "distinct (map p_name (projects db))"
  shows "\<exists>q. filter (\<lambda>p. p_name p = X)
                (projects (upsert_project (upsert_project db X a now1) X b now2)) = [q]
             \<and> p_base_path q = b"
proof -
  let ?db1 = "upsert_project db X a now1"
  let ?hits = "filter (\<lambda>p. p_name p = X) (projects ?db1)"
  have ne: "?hits \<noteq> []" by (rule upsert_present)
  have "length ?hits \<le> 1"
    using assms by (intro distinct_name_filter upsert_distinct_names)
  with ne obtain q0 where q0: "?hits = [q0]"
    by (cases ?hits) auto
  have "filter (\<lambda>p. p_name p = X) (projects (upsert_project ?db1 X b now2))
        = map (\<lambda>p. p\<lparr>p_base_path := b\<rparr>) ?hits"
    using ne by (simp add: upsert_project_def[of ?db1] get_conn_def filter_upd_same)
  then show ?thesis using q0 by simp
qed

theorem upsert_project_twice_witness:
  "distinct (map p_name (projects db_two_projects)) \<and>
   (\<exists>q. filter (\<lambda>p. p_name p = ''Z'')
          (projects (upsert_project (upsert_project db_two_projects ''Z'' (Some ''/a'') ''t1'')
                       ''Z'' (Some ''/b'') ''t2'')) = [q]
        \<and> p_base_path q = Some ''/b'')"
  using upsert_project_twice [of db_two_projects "''Z''" "Some ''/a''" "''t1''" "Some ''/b''" "''t2''"]
  by (simp add: db_two_projects_def init_db_def project_x_def project_y_def)

text \<open>
  C10. For a project row that exists, \<open>upsert_project\<close> on its name keeps the number
  and the order of the project rows; every row keeps its id, its name and its creation
  time; the rows of that name get the new base path and every other row is unchanged;
  the entries, the attachments and the rowid counter are unchanged.
\<close>

theorem upsert_project_frame:
  assumes "p \<in> set (projects db)"
  shows "let db' = upsert_project db (p_name p) b now in
           length (projects db') = length (projects db) \<and>
           (\<forall>i < length (projects db).
              p_id (projects db' ! i) = p_id (projects db ! i) \<and>
              p_name (projects db' ! i) = p_name (projects db ! i) \<and>
              p_created_at (projects db' ! i) = p_created_at (projects db ! i) \<and>
              (p_name (projects db ! i) = p_name p \<longrightarrow> p_base_path (projects db' ! i) = b) \<and>
              (p_name (projects db ! i) \<noteq> p_name p \<longrightarrow> projects db' ! i = projects db ! i)) \<and>
           entries db' = entries db \<and> attachments db' = attachments db \<and>
           seq_projects db' = seq_projects db"
proof -
  have "filter (\<lambda>q. p_name q = p_name p) (projects db) \<noteq> []"
    using assms by (auto simp: filter_empty_conv)
  then show ?thesis
    by (simp add: upsert_project_def get_conn_def Let_def)
qed

theorem upsert_project_frame_witness:
  "project_x \<in> set (projects db_two_projects) \<and>
   projects (upsert_project db_two_projects ''X'' (Some ''/b'') ''t2'') =
     [project_x\<lparr>p_base_path := Some ''/b''\<rparr>, project_y] \<and>
   entries (upsert_project db_two_projects ''X'' (Some ''/b'') ''t2'') = entries db_two_projects \<and>
   attachments (upsert_project db_two_projects ''X'' (Some ''/b'') ''t2'') =
     attachments db_two_projects"
  using upsert_project_frame [of project_x db_two_projects "Some ''/b''" "''t2''"]
  by (simp add: db_two_projects_def init_db_def project_x_def project_y_def
      upsert_project_def get_conn_def Let_def)

subsection \<open>Attachments and the foreign key\<close>

text \<open>
  C9. Every connection of \<open>get_conn\<close> enforces foreign keys. \<open>insert_attachment\<close> with
  an \<open>entry_id\<close> that is the id of no entry raises \<open>IntegrityError\<close> and leaves the
  database as it was; with the id of an existing entry it succeeds and appends one
  attachment row, with a fresh id, for that entry.
\<close>

theorem insert_attachment_foreign_key:
  "foreign_keys (get_conn db) \<and>
   (entry_id \<notin> set (map e_id (entries db)) \<longrightarrow>
      insert_attachment db entry_id filename rel_path now = (db, Inl IntegrityError)) \<and>
   (entry_id \<in> set (map e_id (entries db)) \<longrightarrow>
      (\<exists>db' a. insert_attachment db entry_id filename rel_path now = (db', Inr ()) \<and>
         attachments db' = attachments db @ [a] \<and> a_entry_id a = entry_id \<and>
         a_filename a = filename \<and> a_rel_path a = rel_path \<and> a_created_at a = now \<and>
         a_id a \<notin> set (map a_id (attachments db)) \<and>
         projects db' = projects db \<and> entries db' = entries db))"
proof (intro conjI impI)
  show "foreign_keys (get_conn db)" by (simp add: get_conn_def)
next
  assume "entry_id \<notin> set (map e_id (entries db))"
  then show "insert_attachment db entry_id filename rel_path now = (db, Inl IntegrityError)"
    by (simp add: insert_attachment_def get_conn_def)
next
  assume "entry_id \<in> set (map e_id (entries db))"
  then show "\<exists>db' a. insert_attachment db entry_id filename rel_path now = (db', Inr ()) \<and>
         attachments db' = attachments db @ [a] \<and> a_entry_id a = entry_id \<and>
         a_filename a = filename \<and> a_rel_path a = rel_path \<and> a_created_at a = now \<and>
         a_id a \<notin> set (map a_id (attachments db)) \<and>
         projects db' = projects db \<and> entries db' = entries db"
    using next_rowid_fresh[of "seq_attachments db" "map a_id (attachments db)"]
    by (simp add: insert_attachment_def get_conn_def Let_def)
qed

theorem insert_attachment_foreign_key_witness:
  "insert_attachment db_one_entry 7 ''f.txt'' ''attachments/entry_7/f.txt'' ''t'' =
     (db_one_entry, Inl IntegrityError) \<and>
   fst (insert_attachment db_one_entry 1 ''f.txt'' ''attachments/entry_1/f.txt'' ''t'') =
     db_one_entry\<lparr>attachments := [\<lparr>a_id = 1, a_entry_id = 1, a_filename = ''f.txt'',
             a_rel_path = ''attachments/entry_1/f.txt'', a_created_at = ''t''\<rparr>],
           seq_attachments := 1\<rparr> \<and>
   snd (insert_attachment db_one_entry 1 ''f.txt'' ''attachments/entry_1/f.txt'' ''t'') = Inr ()"
  using insert_attachment_foreign_key [of db_one_entry 7 "''f.txt''" "''attachments/entry_7/f.txt''" "''t''"]
    insert_attachment_foreign_key [of db_one_entry 1 "''f.txt''" "''attachments/entry_1/f.txt''" "''t''"]
  by (simp add: db_one_entry_def init_db_def insert_attachment_def get_conn_def next_rowid_def)

subsection \<open>Exports of an empty result\<close>

text \<open>
  C8. On an empty result both exports return a value: the CSV download is the empty
  byte string, and the Markdown journal is the fixed placeholder document.
\<close>

theorem export_empty:
  "export_csv to_csv [] = [] \<and>
   export_markdown to_datetime_date human_path_link show_float [] =
     Inr (''# Worklog'' @ [CHR 0x0A, CHR 0x0A] @ ''_No entries in the selected range._'' @
          [CHR 0x0A])"
  by (simp add: export_csv_def export_markdown_def)

subsection \<open>The result of a query\<close>

lemma mset_insort_desc: "mset (insort_desc x rs) = add_mset x (mset rs)"
  by (induction rs) auto

lemma mset_order_by_ts_desc: "mset (order_by_ts_desc rs) = mset rs"
  by (induction rs) (auto simp: order_by_ts_desc_def mset_insort_desc)

lemma mset_map_order_by_ts_desc: "mset (map f (order_by_ts_desc rs)) = mset (map f rs)"
  by (simp add: mset_order_by_ts_desc)

lemma set_order_by_ts_desc: "set (order_by_ts_desc rs) = set rs"
  by (metis mset_order_by_ts_desc set_mset_mset)

lemma set_insort_desc: "set (insort_desc x rs) = insert x (set rs)"
  by (induction rs) auto

lemma sorted_insort_desc:
  "sorted_wrt (\<lambda>a b. r_ts b \<le> r_ts a) rs \<Longrightarrow>
   sorted_wrt (\<lambda>a b. r_ts b \<le> r_ts a) (insort_desc x rs)"
  by (induction rs) (auto simp: set_insort_desc)

lemma sorted_order_by_ts_desc: "sorted_wrt (\<lambda>a b. r_ts b \<le> r_ts a) (order_by_ts_desc rs)"
  by (induction rs) (auto simp: order_by_ts_desc_def sorted_insort_desc)

lemma filter_id_distinct:
  "distinct (map p_id ps) \<Longrightarrow> length (filter (\<lambda>p. x = Some (p_id p)) ps) \<le> 1"
  by (induction ps) (auto simp: filter_empty_conv image_iff)

lemma left_join_single:
  assumes "distinct (map p_id ps)"
  shows "map fst (left_join ps e) = [e]"
  using filter_id_distinct[OF assms, of "e_project_id e"]
  by (auto simp: left_join_def split: list.splits)

lemma join_all_fst:
  assumes "distinct (map p_id ps)"
  shows "map fst (concat (map (left_join ps) es)) = es"
  by (induction es) (auto simp: left_join_single[OF assms])

lemma r_id_select_row: "r_id (select_row ep) = e_id (fst ep)"
  by (cases ep) (simp add: select_row_def)

lemma query_entries_unfiltered:
  "query_entries db None None None None None =
     order_by_ts_desc (map select_row (concat (map (left_join (projects db)) (entries db))))"
  by (simp add: query_entries_def query_conditions_def)

text \<open>
  C1, as the code has it. With \<open>project_ids\<close> the empty list and no other filter,
  \<open>query_entries\<close> returns what it returns with the filter left out; and that is one
  row for each entry (the project ids being distinct, as the primary key makes them).
\<close>

theorem query_entries_empty_project_ids:
  assumes "distinct (map p_id (projects db))"
  shows "query_entries db None None (Some []) None None = query_entries db None None None None None \<and>
         mset (map r_id (query_entries db None None None None None)) = mset (map e_id (entries db))"
proof
  show "query_entries db None None (Some []) None None = query_entries db None None None None None"
    by (simp add: query_entries_def query_conditions_def)
next
  have "map r_id (map select_row (concat (map (left_join (projects db)) (entries db))))
        = map e_id (map fst (concat (map (left_join (projects db)) (entries db))))"
    by (simp add: r_id_select_row comp_def)
  also have "\<dots> = map e_id (entries db)"
    by (simp only: join_all_fst[OF assms])
  finally have "map r_id (map select_row (concat (map (left_join (projects db)) (entries db))))
        = map e_id (entries db)" .
  then show "mset (map r_id (query_entries db None None None None None)) = mset (map e_id (entries db))"
    by (simp only: query_entries_unfiltered mset_map_order_by_ts_desc)
qed

theorem query_entries_empty_project_ids_witness:
  "distinct (map p_id (projects db_one_entry)) \<and>
   query_entries db_one_entry None None (Some []) None None =
     query_entries db_one_entry None None None None None \<and>
   map r_id (query_entries db_one_entry None None (Some []) None None) = [1]"
  using query_entries_empty_project_ids [of db_one_entry]
  by (simp add: query_entries_def query_conditions_def db_one_entry_def init_db_def left_join_def
      order_by_ts_desc_def select_row_def)

text \<open>
  C1, as the specification states it, fails: on a database with one entry, the explicitly
  empty list of project ids does not give zero rows.
\<close>

theorem query_entries_empty_project_ids_counterexample:
  "query_entries db_one_entry None None (Some []) None None \<noteq> []"
  by (simp add: query_entries_def query_conditions_def db_one_entry_def init_db_def left_join_def
      order_by_ts_desc_def select_row_def)


lemma left_join_mem:
  "(e', po) \<in> set (left_join ps e) \<Longrightarrow>
     e' = e \<and> (case po of None \<Rightarrow> filter (\<lambda>p. e_project_id e = Some (p_id p)) ps = []
                | Some p \<Rightarrow> p \<in> set ps \<and> e_project_id e = Some (p_id p))"
  by (cases "filter (\<lambda>p. e_project_id e = Some (p_id p)) ps")
     (auto simp: left_join_def dest: filter_eq_ConsD)

lemma query_entries_mem:
  assumes "r \<in> set (query_entries db start end' pids text tags_like)"
  shows "\<exists>e po. e \<in> set (entries db) \<and> (e, po) \<in> set (left_join (projects db) e) \<and>
           r = select_row (e, po) \<and>
           list_all (\<lambda>c. c e) (query_conditions start end' pids text tags_like)"
proof -
  from assms obtain ep where ep: "ep \<in> set (concat (map (left_join (projects db)) (entries db)))"
      "list_all (\<lambda>c. c (fst ep)) (query_conditions start end' pids text tags_like)"
      "r = select_row ep"
    by (auto simp: query_entries_def set_order_by_ts_desc Let_def)
  from ep(1) obtain e where e: "e \<in> set (entries db)" "ep \<in> set (left_join (projects db) e)"
    by auto
  obtain e' po where [simp]: "ep = (e', po)" by (cases ep)
  from e(2) have "e' = e" using left_join_mem by fastforce
  with e ep show ?thesis by auto
qed

text \<open>
  C6. Whatever the filter, in a database that satisfies the constraints of its schema the
  rows of \<open>query_entries\<close> are in descending order of their timestamp text, and each
  row comes from an entry whose id and timestamp it carries: its project column is empty
  when that entry has no project, and the name of the project the entry refers to
  otherwise.
\<close>

theorem query_entries_ordered_projected:
  assumes "schema_ok db"
  shows "sorted_wrt (\<lambda>a b. r_ts b \<le> r_ts a) (query_entries db start end' pids text tags_like) \<and>
         (\<forall>r \<in> set (query_entries db start end' pids text tags_like).
            \<exists>e \<in> set (entries db). r_id r = e_id e \<and> r_ts r = e_ts e \<and>
              (case e_project_id e of None \<Rightarrow> r_project r = []
               | Some pid \<Rightarrow> (\<exists>p \<in> set (projects db). p_id p = pid \<and> r_project r = p_name p)))"
proof (intro conjI ballI)
  show "sorted_wrt (\<lambda>a b. r_ts b \<le> r_ts a) (query_entries db start end' pids text tags_like)"
    by (simp add: query_entries_def sorted_order_by_ts_desc)
next
  fix r assume "r \<in> set (query_entries db start end' pids text tags_like)"
  then obtain e po where e: "e \<in> set (entries db)" and j: "(e, po) \<in> set (left_join (projects db) e)"
    and r: "r = select_row (e, po)"
    using query_entries_mem by blast
  from assms e have fk: "case e_project_id e of None \<Rightarrow> True
                         | Some pid \<Rightarrow> pid \<in> set (map p_id (projects db))"
    by (auto simp: schema_ok_def list_all_iff)
  have "case e_project_id e of None \<Rightarrow> r_project r = []
        | Some pid \<Rightarrow> (\<exists>p \<in> set (projects db). p_id p = pid \<and> r_project r = p_name p)"
  proof (cases po)
    case None
    with left_join_mem[OF j] have nohit: "filter (\<lambda>p. e_project_id e = Some (p_id p)) (projects db) = []"
      by simp
    show ?thesis
    proof (cases "e_project_id e")
      case None
      then show ?thesis using r \<open>po = None\<close> by (simp add: select_row_def)
    next
      case (Some pid)
      with fk obtain p where "p \<in> set (projects db)" "p_id p = pid" by auto
      with nohit Some show ?thesis by (auto simp: filter_empty_conv)
    qed
  next
    case (Some p)
    with left_join_mem[OF j] have "p \<in> set (projects db)" "e_project_id e = Some (p_id p)"
      by simp_all
    then show ?thesis using r Some by (auto simp: select_row_def)
  qed
  then show "\<exists>e \<in> set (entries db). r_id r = e_id e \<and> r_ts r = e_ts e \<and>
              (case e_project_id e of None \<Rightarrow> r_project r = []
               | Some pid \<Rightarrow> (\<exists>p \<in> set (projects db). p_id p = pid \<and> r_project r = p_name p))"
    using e r by (auto simp: select_row_def)
qed

theorem query_entries_ordered_projected_witness:
  "schema_ok db_atlas \<and>
   map (\<lambda>r. (r_id r, r_ts r, r_project r)) (query_entries db_atlas None None None None (Some ''calib'')) =
     [(1, ''2024-01-05T10:30:00'', ''Atlas'')] \<and>
   map (\<lambda>r. (r_id r, r_ts r, r_project r)) (query_entries db_atlas None None None None None) =
     [(2, ''2024-01-07T08:15:00'', ''''), (1, ''2024-01-05T10:30:00'', ''Atlas'')]"
  using query_entries_ordered_projected [of db_atlas None None None None "Some ''calib''"]
    query_entries_ordered_projected [of db_atlas None None None None None]
  by (simp add: query_entries_def query_conditions_def db_atlas_def init_db_def left_join_def
      order_by_ts_desc_def select_row_def schema_ok_def like_pattern_def to_lower_def)

subsection \<open>The text filter\<close>

lemma left_join_nonempty: "\<exists>po. (e, po) \<in> set (left_join ps e)"
  by (cases "filter (\<lambda>p. e_project_id e = Some (p_id p)) ps") (auto simp: left_join_def)

lemma query_entries_intro:
  assumes "e \<in> set (entries db)"
    and "list_all (\<lambda>c. c e) (query_conditions start end' pids text tags_like)"
  shows "\<exists>r \<in> set (query_entries db start end' pids text tags_like). r_id r = e_id e"
proof -
  obtain po where po: "(e, po) \<in> set (left_join (projects db) e)"
    using left_join_nonempty by blast
  with assms have "select_row (e, po) \<in> set (query_entries db start end' pids text tags_like)"
    by (force simp: query_entries_def set_order_by_ts_desc Let_def)
  moreover have "r_id (select_row (e, po)) = e_id e" by (simp add: select_row_def)
  ultimately show ?thesis by blast
qed

lemma like_percent: "like ''%'' t"
  by (induction t) auto

lemma like_literal_prefix:
  assumes "CHR ''%'' \<notin> set s" "CHR ''_'' \<notin> set s"
  shows "like (s @ ''%'') t \<longleftrightarrow> ci_prefix s t"
  using assms
proof (induction s arbitrary: t)
  case Nil
  then show ?case using like_percent by simp
next
  case (Cons c cs)
  then show ?case by (cases t) auto
qed

lemma like_contains:
  assumes "CHR ''%'' \<notin> set s" "CHR ''_'' \<notin> set s"
  shows "like (like_pattern s) t \<longleftrightarrow> ci_substring s t"
proof (induction t)
  case Nil
  show ?case using like_literal_prefix[OF assms, of "[]"] by (simp add: like_pattern_def)
next
  case (Cons d ds)
  show ?case using like_literal_prefix[OF assms, of "d # ds"] Cons
    by (simp add: like_pattern_def)
qed

lemma ci_substring_empty: "ci_substring [] t"
  by (cases t) auto

lemma ci_prefix_iff:
  "ci_prefix s t \<longleftrightarrow> (\<exists>w v. t = w @ v \<and> map to_lower w = map to_lower s)"
proof (induction s t rule: ci_prefix.induct)
  case (1 t)
  then show ?case by simp
next
  case (2 c cs)
  then show ?case by simp
next
  case (3 c cs d ds)
  show ?case
  proof
    assume "ci_prefix (c # cs) (d # ds)"
    with 3 obtain w v where "ds = w @ v" "map to_lower w = map to_lower cs" "to_lower c = to_lower d"
      by auto
    then have "d # ds = (d # w) @ v \<and> map to_lower (d # w) = map to_lower (c # cs)" by simp
    then show "\<exists>w v. d # ds = w @ v \<and> map to_lower w = map to_lower (c # cs)" by blast
  next
    assume "\<exists>w v. d # ds = w @ v \<and> map to_lower w = map to_lower (c # cs)"
    then obtain w v where wv: "d # ds = w @ v" "map to_lower w = map to_lower (c # cs)" by blast
    then obtain w' where "w = d # w'" by (cases w) auto
    with wv 3 show "ci_prefix (c # cs) (d # ds)" by auto
  qed
qed

lemma ci_substring_iff:
  "ci_substring s t \<longleftrightarrow> (\<exists>u w v. t = u @ w @ v \<and> map to_lower w = map to_lower s)"
proof (induction t)
  case Nil
  then show ?case by (cases s) auto
next
  case (Cons d ds)
  show ?case
  proof
    assume "ci_substring s (d # ds)"
    then consider "ci_prefix s (d # ds)" | "ci_substring s ds" by auto
    then show "\<exists>u w v. d # ds = u @ w @ v \<and> map to_lower w = map to_lower s"
    proof cases
      case 1
      then obtain w v where "d # ds = [] @ w @ v" "map to_lower w = map to_lower s"
        by (auto simp: ci_prefix_iff)
      then show ?thesis by blast
    next
      case 2
      with Cons obtain u w v where "ds = u @ w @ v" "map to_lower w = map to_lower s" by blast
      then have "d # ds = (d # u) @ w @ v \<and> map to_lower w = map to_lower s" by simp
      then show ?thesis by blast
    qed
  next
    assume "\<exists>u w v. d # ds = u @ w @ v \<and> map to_lower w = map to_lower s"
    then obtain u w v where uwv: "d # ds = u @ w @ v" "map to_lower w = map to_lower s" by blast
    show "ci_substring s (d # ds)"
    proof (cases u)
      case Nil
      with uwv have "ci_prefix s (d # ds)" by (auto simp: ci_prefix_iff)
      then show ?thesis by simp
    next
      case (Cons a u')
      with uwv have "ds = u' @ w @ v" by simp
      with uwv Cons.IH have "ci_substring s ds" using \<open>ds = u' @ w @ v\<close> Cons.prems
        by blast
      then show ?thesis by simp
    qed
  qed
qed

text \<open>
  C4, as the code has it. For a search text without the wildcards \<open>%\<close> and \<open>_\<close> of
  LIKE, an entry is among the rows of \<open>query_entries\<close> with that text filter exactly when
  its title, its notes or its path contains the text, the case of ASCII letters ignored.
  (Entry ids are distinct: the primary key.)
\<close>

theorem text_filter_substring:
  assumes "CHR ''%'' \<notin> set s" and "CHR ''_'' \<notin> set s"
    and "distinct (map e_id (entries db))" and "e \<in> set (entries db)"
  shows "(\<exists>r \<in> set (query_entries db None None None (Some s) None). r_id r = e_id e) \<longleftrightarrow>
         (ci_substring s (e_title e) \<or> ci_substring s (e_notes_md e) \<or> ci_substring s (e_path e))"
proof -
  have cond: "list_all (\<lambda>c. c x) (query_conditions None None None (Some s) None) \<longleftrightarrow>
      (ci_substring s (e_title x) \<or> ci_substring s (e_notes_md x) \<or> ci_substring s (e_path x))"
    for x
    by (simp add: query_conditions_def like_contains[OF assms(1,2)] ci_substring_empty)
  show ?thesis
  proof
    assume "\<exists>r \<in> set (query_entries db None None None (Some s) None). r_id r = e_id e"
    then obtain r where r: "r \<in> set (query_entries db None None None (Some s) None)" "r_id r = e_id e"
      by blast
    from query_entries_mem[OF r(1)] obtain e' po where e': "e' \<in> set (entries db)"
      "r = select_row (e', po)" "list_all (\<lambda>c. c e') (query_conditions None None None (Some s) None)"
      by blast
    from e'(2) r(2) have "e_id e' = e_id e" by (simp add: select_row_def)
    with assms(3,4) e'(1) have "e' = e"
      by (meson distinct_map inj_onD)
    with e'(3) cond show "ci_substring s (e_title e) \<or> ci_substring s (e_notes_md e) \<or> ci_substring s (e_path e)"
      by simp
  next
    assume "ci_substring s (e_title e) \<or> ci_substring s (e_notes_md e) \<or> ci_substring s (e_path e)"
    with cond have "list_all (\<lambda>c. c e) (query_conditions None None None (Some s) None)" by simp
    with assms(4) show "\<exists>r \<in> set (query_entries db None None None (Some s) None). r_id r = e_id e"
      by (rule query_entries_intro)
  qed
qed

theorem text_filter_substring_witness:
  "CHR ''%'' \<notin> set ''ABC'' \<and> CHR ''_'' \<notin> set ''ABC'' \<and>
   distinct (map e_id (entries db_one_entry)) \<and>
   map e_title (entries db_one_entry) = [''abc''] \<and>
   map r_id (query_entries db_one_entry None None None (Some ''ABC'') None) = [1] \<and>
   ci_substring ''ABC'' ''abc'' \<and>
   query_entries db_one_entry None None None (Some ''abd'') None = [] \<and>
   \<not> ci_substring ''abd'' ''abc'' \<and> \<not> ci_substring ''abd'' []"
proof -
  have concrete: "map r_id (query_entries db_one_entry None None None (Some ''ABC'') None) = [1]"
    "query_entries db_one_entry None None None (Some ''abd'') None = []"
    "ci_substring ''ABC'' ''abc''" "\<not> ci_substring ''abd'' ''abc''"
    by code_simp+
  show ?thesis
    using text_filter_substring [of "''ABC''" db_one_entry "hd (entries db_one_entry)"] concrete
    by (simp add: db_one_entry_def init_db_def)
qed

text \<open>
  C4, as the specification states it, fails for a search text with a wildcard: the text
  \<open>a_c\<close> selects the entry titled \<open>abc\<close>, none of whose title, notes and path
  contains \<open>a_c\<close>.
\<close>

theorem text_filter_wildcard_counterexample:
  "map r_title (query_entries db_one_entry None None None (Some ''a_c'') None) = [''abc''] \<and>
   map r_notes_md (query_entries db_one_entry None None None (Some ''a_c'') None) = [[]] \<and>
   map r_path (query_entries db_one_entry None None None (Some ''a_c'') None) = [[]] \<and>
   \<not> ci_substring ''a_c'' ''abc'' \<and> \<not> ci_substring ''a_c'' []"
  by code_simp

subsection \<open>The stored duration\<close>

lemma strip_examples:
  "strip '' t '' = ''t''" "strip [] = []" "strip [CHR 0xC2, CHR 0xA0] = []"
  by code_simp+

text \<open>
  C5, as the code has it. \<open>insert_entry\<close> stores the duration it is given, absent or
  not; it is \<open>quick_capture\<close> that turns a zero of its number field into an absent
  duration before it calls \<open>insert_entry\<close>, and with a title that is blank it stores
  nothing. (The project, when given, exists.)
\<close>

theorem duration_stored_as_given:
  assumes "case project_id of None \<Rightarrow> True | Some i \<Rightarrow> i \<in> set (map p_id (projects db))"
  shows "(\<exists>db1 i. insert_entry db ts title project_id work_type tags path d notes_md now = (db1, Inr i) \<and>
            e_id (last (entries db1)) = i \<and> e_duration_hours (last (entries db1)) = d) \<and>
         (strip title \<noteq> [] \<longrightarrow>
            (\<exists>db2 i. quick_capture db project_id title ts path work_type tags dur notes_md now
                        = (db2, Some (Inr i)) \<and>
               e_id (last (entries db2)) = i \<and>
               e_duration_hours (last (entries db2)) = (if dur = 0 then None else Some dur))) \<and>
         (strip title = [] \<longrightarrow>
            quick_capture db project_id title ts path work_type tags dur notes_md now = (db, None))"
  using assms
  by (auto simp: insert_entry_def quick_capture_def get_conn_def Let_def split: option.splits)

theorem duration_stored_as_given_witness:
  "snd (insert_entry init_db ts_example '' t '' None ''Other'' '''' '''' None '''' ''now'') = Inr 1 \<and>
   e_duration_hours (last (entries (fst
      (insert_entry init_db ts_example '' t '' None ''Other'' '''' '''' None '''' ''now'')))) = None \<and>
   strip '' t '' = ''t'' \<and>
   snd (quick_capture init_db None '' t '' ts_example '''' ''Other'' '''' 0 '''' ''now'') = Some (Inr 1) \<and>
   e_duration_hours (last (entries (fst
      (quick_capture init_db None '' t '' ts_example '''' ''Other'' '''' 0 '''' ''now'')))) = None \<and>
   e_duration_hours (last (entries (fst
      (quick_capture init_db None '' t '' ts_example '''' ''Other'' '''' (3/2) '''' ''now'')))) = Some (3/2) \<and>
   strip [CHR 0xC2, CHR 0xA0] = [] \<and>
   quick_capture init_db None [CHR 0xC2, CHR 0xA0] ts_example '''' ''Other'' '''' 0 '''' ''now''
     = (init_db, None)"
  using duration_stored_as_given [where project_id = None and db = init_db and ts = ts_example
      and title = "'' t ''" and work_type = "''Other''" and tags = "''''" and path = "''''"
      and d = None and notes_md = "''''" and now = "''now''" and dur = 0]
    duration_stored_as_given [where project_id = None and db = init_db and ts = ts_example
      and title = "'' t ''" and work_type = "''Other''" and tags = "''''" and path = "''''"
      and d = None and notes_md = "''''" and now = "''now''" and dur = "3/2"]
    duration_stored_as_given [where project_id = None and db = init_db and ts = ts_example
      and title = "[CHR 0xC2, CHR 0xA0]" and work_type = "''Other''" and tags = "''''"
      and path = "''''" and d = None and notes_md = "''''" and now = "''now''" and dur = 0]
  by (simp add: insert_entry_def quick_capture_def get_conn_def Let_def init_db_def next_rowid_def
      strip_examples)

text \<open>
  C5, as the specification states it, fails: \<open>insert_entry\<close> called with a duration of
  zero stores zero, not null.
\<close>

theorem insert_entry_zero_duration_counterexample:
  "snd (insert_entry init_db ts_example ''t'' None ''Other'' '''' '''' (Some 0) '''' ''now'') = Inr 1 \<and>
   e_duration_hours (last (entries (fst
      (insert_entry init_db ts_example ''t'' None ''Other'' '''' '''' (Some 0) '''' ''now'')))) = Some 0"
  by (simp add: insert_entry_def get_conn_def Let_def init_db_def next_rowid_def)


subsection \<open>The Markdown journal\<close>

lemma date_key_inj: "date_key a = date_key b \<longleftrightarrow> a = b"
  by (cases a, cases b) (auto simp: date_key_def)











lemma journal_groups_three_rows:
  "journal_groups [\<lparr>d_year = 2024, d_month = 1, d_day = 7\<rparr>, \<lparr>d_year = 2024, d_month = 1, d_day = 7\<rparr>,
                   \<lparr>d_year = 2024, d_month = 1, d_day = 5\<rparr>]
     [row_day7_late, row_day7, row_day5] =
     [(\<lparr>d_year = 2024, d_month = 1, d_day = 5\<rparr>, [row_day5]),
      (\<lparr>d_year = 2024, d_month = 1, d_day = 7\<rparr>, [row_day7, row_day7_late])]"
  by code_simp




subsection \<open>ISO texts of dates: digits, order and the SQL date function\<close>



























subsection \<open>Inserting an entry and reading it back\<close>








end
